theory Spec2Isabelle
  imports Complex_Main
begin

section \<open>The reefer telemetry simulator\<close>

text \<open>
  A shallow embedding of \<^verbatim>\<open>simulator/domain/reefer_simulator.py\<close>.

  \<^item> A float64 value is a \<^typ>\<open>real\<close>: the arithmetic of the model is exact, rounding is
    not modelled. The comparisons of the source (\<^verbatim>\<open>pwr < 0.0\<close>, \<^verbatim>\<open>pwrc == 0\<close>,
    \<^verbatim>\<open>CO2 > CO2_LEVEL\<close>) are the comparisons of the model.
  \<^item> A Python int is an \<^typ>\<open>int\<close>; a timestamp is a number of minutes.
  \<^item> The random sources and the clock are inputs (\<open>env\<close>): the sequence of deviates
    each generator hands out, in the order the program asks for them. Any sequence is
    allowed, so a theorem about every \<open>env\<close> holds for every seed.
  \<^item> An exception is a value of type \<open>error\<close>; a function that may raise returns
    \<open>error + 'a\<close>.
  \<^item> A pandas DataFrame is the list of its columns, in column order, each with its name.
\<close>

subsection \<open>Module constants\<close>

definition CO2_LEVEL :: real where "CO2_LEVEL = 4"
definition O2_LEVEL :: real where "O2_LEVEL = 21"
definition NITROGEN_LEVEL :: real where "NITROGEN_LEVEL = 0.78"
definition POWER_LEVEL :: real where "POWER_LEVEL = 7.2"
definition NB_RECORDS_IMPACTED :: int where "NB_RECORDS_IMPACTED = 7"
definition MAX_RECORDS :: int where "MAX_RECORDS = 1000"
definition DEFROST_LEVEL :: int where "DEFROST_LEVEL = 7"

subsection \<open>Exceptions, random sources, data frames\<close>

datatype error = ValueError | TypeError | NameError string | KeyError string

text \<open>
  \<open>py_gauss\<close> is the sequence of standard normal deviates behind \<^verbatim>\<open>random.gauss\<close>,
  \<open>py_randint\<close> the raw integer behind the one call of \<^verbatim>\<open>random.randint\<close>;
  \<open>np_normal\<close> and \<open>np_randint\<close> are the same for \<^verbatim>\<open>np.random\<close>; \<open>today\<close> is what
  \<^verbatim>\<open>datetime.datetime.today()\<close> returns.
\<close>

record env =
  py_gauss :: "nat \<Rightarrow> real"
  py_randint :: nat
  np_normal :: "nat \<Rightarrow> real"
  np_randint :: "nat \<Rightarrow> nat"
  today :: int

definition gauss :: "real \<Rightarrow> real \<Rightarrow> real \<Rightarrow> real" where
  \<comment> \<open>\<^verbatim>\<open>random.gauss(mu, sigma)\<close> returns \<^verbatim>\<open>mu + z * sigma\<close> for the next deviate \<open>z\<close>.\<close>
  "gauss mu sigma z = mu + z * sigma"

definition randint :: "int \<Rightarrow> int \<Rightarrow> nat \<Rightarrow> int" where
  \<comment> \<open>\<^verbatim>\<open>random.randint(a, b)\<close>: both ends included.\<close>
  "randint a b u = a + int u mod (b - a + 1)"

definition np_random_normal :: "env \<Rightarrow> real \<Rightarrow> real \<Rightarrow> nat \<Rightarrow> nat \<Rightarrow> real list" where
  \<comment> \<open>\<^verbatim>\<open>np.random.normal(loc, scale, size=n)\<close>, the generator having handed out
      \<open>off\<close> deviates before.\<close>
  "np_random_normal e loc scale off n = map (\<lambda>k. loc + scale * np_normal e (off + k)) [0..<n]"

definition np_random_randint :: "env \<Rightarrow> int \<Rightarrow> int \<Rightarrow> nat \<Rightarrow> int list" where
  \<comment> \<open>\<^verbatim>\<open>np.random.randint(low, high, size=n)\<close>: \<open>high\<close> excluded.\<close>
  "np_random_randint e low high n = map (\<lambda>k. low + int (np_randint e k) mod (high - low)) [0..<n]"

datatype column =
  StrCol "string list" | IntCol "int list" | FloatCol "real list" | TimeCol "int list"

datatype cell = StrCell string | IntCell int | FloatCell real | TimeCell int

type_synonym dataframe = "(string \<times> column) list"

fun col_len :: "column \<Rightarrow> nat" where
  "col_len (StrCol xs) = length xs"
| "col_len (IntCol xs) = length xs"
| "col_len (FloatCol xs) = length xs"
| "col_len (TimeCol xs) = length xs"

fun cell_at :: "column \<Rightarrow> nat \<Rightarrow> cell" where
  "cell_at (StrCol xs) i = StrCell (xs ! i)"
| "cell_at (IntCol xs) i = IntCell (xs ! i)"
| "cell_at (FloatCol xs) i = FloatCell (xs ! i)"
| "cell_at (TimeCol xs) i = TimeCell (xs ! i)"

fun df_set :: "dataframe \<Rightarrow> string \<Rightarrow> column \<Rightarrow> dataframe" where
  \<comment> \<open>\<^verbatim>\<open>df[name] = col\<close>: an existing column is replaced where it stands, a new one is
      appended. Every column this program assigns has the length of the frame.\<close>
  "df_set [] name col = [(name, col)]"
| "df_set ((k, c) # df) name col =
     (if k = name then (k, col) # df else (k, c) # df_set df name col)"

definition df_get :: "dataframe \<Rightarrow> string \<Rightarrow> error + column" where
  \<comment> \<open>\<^verbatim>\<open>df[name]\<close>\<close>
  "df_get df name = (case map_of df name of None \<Rightarrow> Inl (KeyError name) | Some c \<Rightarrow> Inr c)"

fun df_select :: "dataframe \<Rightarrow> string list \<Rightarrow> error + dataframe" where
  \<comment> \<open>\<^verbatim>\<open>df[names]\<close>: the named columns, in the order of \<open>names\<close>.\<close>
  "df_select df [] = Inr []"
| "df_select df (name # names) =
     (case df_get df name of
        Inl e \<Rightarrow> Inl e
      | Inr c \<Rightarrow> (case df_select df names of Inl e \<Rightarrow> Inl e | Inr r \<Rightarrow> Inr ((name, c) # r)))"

definition nrows :: "dataframe \<Rightarrow> nat" where
  "nrows df = (case df of [] \<Rightarrow> 0 | (k, c) # rest \<Rightarrow> col_len c)"

definition to_records :: "dataframe \<Rightarrow> cell list list" where
  \<comment> \<open>\<^verbatim>\<open>list(df.to_records(index=False))\<close>: one tuple per row, fields in column order.\<close>
  "to_records df = map (\<lambda>i. map (\<lambda>(k, c). cell_at c i) df) [0..<nrows df]"

definition float_col :: "dataframe \<Rightarrow> string \<Rightarrow> real list" where
  "float_col df name = (case map_of df name of Some (FloatCol xs) \<Rightarrow> xs | _ \<Rightarrow> [])"

definition int_col :: "dataframe \<Rightarrow> string \<Rightarrow> int list" where
  "int_col df name = (case map_of df name of Some (IntCol xs) \<Rightarrow> xs | _ \<Rightarrow> [])"

subsection \<open>Timestamps and stationary columns\<close>

definition generateTimestamps :: "env \<Rightarrow> int \<Rightarrow> int option \<Rightarrow> error + column" where
  \<comment> \<open>\<^verbatim>\<open>_generateTimestamps\<close>. \<^verbatim>\<open>pd.date_range\<close> rejects a negative number of periods.\<close>
  "generateTimestamps e nb_records start_time =
     (let start = (case start_time of None \<Rightarrow> today e | Some t \<Rightarrow> t)
      in if nb_records < 0 then Inl ValueError
         else Inr (TimeCol (map (\<lambda>k. start + 15 * int k) [0..<nat nb_records])))"

definition generateStationaryCols ::
  "env \<Rightarrow> int \<Rightarrow> string \<Rightarrow> int option \<Rightarrow> real \<Rightarrow> error + dataframe" where
  \<comment> \<open>\<^verbatim>\<open>_generateStationaryCols\<close>. \<^verbatim>\<open>np.repeat\<close> rejects a negative count with
      ValueError, on the first column, before any value is drawn from \<^verbatim>\<open>np.random\<close>;
      the function itself checks nothing.\<close>
  "generateStationaryCols e nb_records cid content_type tgood =
     (let content_type' = (case content_type of None \<Rightarrow> randint 1 5 (py_randint e) | Some c \<Rightarrow> c)
      in if nb_records < 0 then Inl ValueError
         else
           (let n = nat nb_records
            in Inr [(''ID'', StrCol (replicate n cid)),
                    (''ContentType'', IntCol (replicate n content_type')),
                    (''Target_Temperature(celsius)'', FloatCol (replicate n tgood)),
                    (''O2'', FloatCol (np_random_normal e O2_LEVEL 3.0 0 n)),
                    (''CO2'', FloatCol (np_random_normal e CO2_LEVEL 3.0 n n)),
                    (''Time_Door_Open'', FloatCol (np_random_normal e 30.0 2.0 (2 * n) n)),
                    (''Temperature(celsius)'', FloatCol (np_random_normal e tgood 2.0 (3 * n) n)),
                    (''Power'', FloatCol (np_random_normal e POWER_LEVEL 6 (4 * n) n)),
                    (''Defrost_Cycle'', IntCol (np_random_randint e 0 DEFROST_LEVEL n))]))"

subsection \<open>The power-loss state machine\<close>

text \<open>
  The state the loop of \<^verbatim>\<open>_simulatePowerOff\<close> carries from row to row: \<^verbatim>\<open>temp\<close>,
  \<^verbatim>\<open>count_pwr\<close>, \<^verbatim>\<open>pwrc\<close>, and how many deviates \<^verbatim>\<open>random.gauss\<close> has handed out.
\<close>

record sm_state =
  temp :: real
  count_pwr :: int
  pwrc :: real
  drawn :: nat

record sm_row =
  row_temp :: real
  row_maint :: int
  row_power :: real
  row_pwrc :: real

definition update_pwrc :: "(nat \<Rightarrow> real) \<Rightarrow> nat \<Rightarrow> real \<Rightarrow> real \<Rightarrow> real \<times> nat" where
  \<comment> \<open>Lines 110 to 114: the accumulator, and the number of deviates drawn so far.\<close>
  "update_pwrc g d pwr pwrc0 =
     (if pwrc0 = 0 then (gauss POWER_LEVEL 10.0 (g d), d + 1) else (pwr + pwrc0, d))"

definition power_off_branch :: "real \<Rightarrow> int \<Rightarrow> real \<Rightarrow> real \<Rightarrow> real \<times> int \<times> real" where
  \<comment> \<open>Lines 118 to 126: the new \<^verbatim>\<open>pwr\<close>, \<^verbatim>\<open>count_pwr\<close> and \<^verbatim>\<open>temp\<close>.\<close>
  "power_off_branch pwr c oldtemp temp0 =
     (if pwr < 0.0 then (0, c + 1, oldtemp)
      else if 0 < c \<and> c < NB_RECORDS_IMPACTED then (0, c + 1, oldtemp + 0.8 * real_of_int (c + 1))
      else (pwr, c, temp0))"

definition flag_episode :: "int \<Rightarrow> real \<Rightarrow> int \<times> int \<times> real" where
  \<comment> \<open>Lines 117 and 127 to 131: \<^verbatim>\<open>maintenance_flag\<close>, \<^verbatim>\<open>count_pwr\<close> and \<^verbatim>\<open>pwrc\<close>.\<close>
  "flag_episode c pc = (if c = NB_RECORDS_IMPACTED then (1, 0, 0) else (0, c, pc))"

definition loop_body :: "(nat \<Rightarrow> real) \<Rightarrow> real \<Rightarrow> sm_state \<Rightarrow> sm_state \<times> sm_row" where
  \<comment> \<open>One iteration of the loop, lines 106 to 136.\<close>
  "loop_body g tgood s =
     (let oldtemp = temp s;
          temp1 = gauss tgood 2.0 (g (drawn s));
          pwr = gauss POWER_LEVEL 6 (g (drawn s + 1));
          (pwrc1, d) = update_pwrc g (drawn s + 2) pwr (pwrc s);
          (pwr2, c2, temp2) = power_off_branch pwr (count_pwr s) oldtemp temp1;
          (maintenance_flag, c3, pwrc3) = flag_episode c2 pwrc1
      in (\<lparr>temp = temp2, count_pwr = c3, pwrc = pwrc3, drawn = d\<rparr>,
          \<lparr>row_temp = temp2, row_maint = maintenance_flag, row_power = pwr2, row_pwrc = pwrc3\<rparr>))"

fun run_loop :: "(nat \<Rightarrow> real) \<Rightarrow> real \<Rightarrow> nat \<Rightarrow> sm_state \<Rightarrow> sm_row list" where
  \<comment> \<open>\<^verbatim>\<open>for i in range(nb_records)\<close>: the rows written, in order.\<close>
  "run_loop g tgood 0 s = []"
| "run_loop g tgood (Suc k) s =
     (case loop_body g tgood s of (s', r) \<Rightarrow> r # run_loop g tgood k s')"

definition initial_state :: "(nat \<Rightarrow> real) \<Rightarrow> real \<Rightarrow> sm_state" where
  \<comment> \<open>Lines 102 to 104.\<close>
  "initial_state g tgood = \<lparr>temp = gauss tgood 3.0 (g 0), count_pwr = 0, pwrc = 0, drawn = 1\<rparr>"

definition simulatePowerOff :: "env \<Rightarrow> int \<Rightarrow> real \<Rightarrow> error + dataframe" where
  \<comment> \<open>\<^verbatim>\<open>_simulatePowerOff\<close>. \<^verbatim>\<open>np.ndarray\<close> rejects a negative length.\<close>
  "simulatePowerOff e nb_records tgood =
     (if nb_records < 0 then Inl ValueError
      else
        (let rows = run_loop (py_gauss e) tgood (nat nb_records) (initial_state (py_gauss e) tgood)
         in Inr [(''Temperature(celsius)'', FloatCol (map row_temp rows)),
                 (''Maintenance_Required'', IntCol (map row_maint rows)),
                 (''Power'', FloatCol (map row_power rows)),
                 (''PowerConsumption'', FloatCol (map row_pwrc rows))]))"

subsection \<open>The simulator class\<close>

definition COLUMN_ORDER :: "string list" where
  "COLUMN_ORDER = [''Timestamp'', ''ID'', ''Temperature(celsius)'',
                   ''Target_Temperature(celsius)'', ''Power'', ''PowerConsumption'',
                   ''ContentType'', ''O2'', ''CO2'', ''Time_Door_Open'',
                   ''Maintenance_Required'', ''Defrost_Cycle'']"

fun copy_cols :: "dataframe \<Rightarrow> dataframe \<Rightarrow> string list \<Rightarrow> error + dataframe" where
  \<comment> \<open>\<^verbatim>\<open>for col_name in names: df[col_name] = results[col_name]\<close>\<close>
  "copy_cols df results [] = Inr df"
| "copy_cols df results (name # names) =
     (case df_get results name of
        Inl e \<Rightarrow> Inl e
      | Inr c \<Rightarrow> copy_cols (df_set df name c) results names)"

definition generatePowerOff ::
  "env \<Rightarrow> string \<Rightarrow> int \<Rightarrow> real \<Rightarrow> int option \<Rightarrow> int option \<Rightarrow> error + dataframe" where
  "generatePowerOff e cid nb_records tgood content_type start_time =
     (case generateStationaryCols e nb_records cid content_type tgood of
        Inl err \<Rightarrow> Inl err
      | Inr df \<Rightarrow>
          (case generateTimestamps e nb_records start_time of
             Inl err \<Rightarrow> Inl err
           | Inr ts \<Rightarrow>
               (case simulatePowerOff e nb_records tgood of
                  Inl err \<Rightarrow> Inl err
                | Inr state_machine_results \<Rightarrow>
                    (case copy_cols (df_set df ''Timestamp'' ts) state_machine_results
                            [''Temperature(celsius)'', ''Maintenance_Required'',
                             ''Power'', ''PowerConsumption''] of
                       Inl err \<Rightarrow> Inl err
                     | Inr df' \<Rightarrow> df_select df' COLUMN_ORDER))))"

fun cumsum_from :: "'a::plus \<Rightarrow> 'a list \<Rightarrow> 'a list" where
  "cumsum_from acc [] = []"
| "cumsum_from acc (x # xs) = (acc + x) # cumsum_from (acc + x) xs"

fun series_cumsum :: "column \<Rightarrow> error + column" where
  \<comment> \<open>\<^verbatim>\<open>Series.cumsum()\<close> of a numeric column: the running sums, left to right.\<close>
  "series_cumsum (FloatCol xs) = Inr (FloatCol (cumsum_from 0 xs))"
| "series_cumsum (IntCol xs) = Inr (IntCol (cumsum_from 0 xs))"
| "series_cumsum c = Inl TypeError"

fun co2_out_of_range :: "column \<Rightarrow> error + column" where
  \<comment> \<open>\<^verbatim>\<open>((col > CO2_LEVEL) | (col < 0)).astype(np.int)\<close> on a numeric column: True is 1,
      False is 0 (\<^verbatim>\<open>np.int\<close> is the built-in int, in the numpy releases that have the
      name).\<close>
  "co2_out_of_range (FloatCol xs) =
     Inr (IntCol (map (\<lambda>x. if x > CO2_LEVEL \<or> x < 0 then 1 else 0) xs))"
| "co2_out_of_range (IntCol xs) =
     Inr (IntCol (map (\<lambda>x. if real_of_int x > CO2_LEVEL \<or> x < 0 then 1 else 0) xs))"
| "co2_out_of_range c = Inl TypeError"

definition generateCo2 ::
  "env \<Rightarrow> string \<Rightarrow> int \<Rightarrow> real \<Rightarrow> int option \<Rightarrow> int option \<Rightarrow> error + dataframe" where
  "generateCo2 e cid nb_records tgood content_type start_time =
     (case generateStationaryCols e nb_records cid content_type tgood of
        Inl err \<Rightarrow> Inl err
      | Inr df \<Rightarrow>
          (case generateTimestamps e nb_records start_time of
             Inl err \<Rightarrow> Inl err
           | Inr ts \<Rightarrow>
               (let df1 = df_set df ''Timestamp'' ts
                in case df_get df1 ''Power'' of
                     Inl err \<Rightarrow> Inl err
                   | Inr power_col \<Rightarrow>
                       (case series_cumsum power_col of
                          Inl err \<Rightarrow> Inl err
                        | Inr consumption \<Rightarrow>
                            (let df2 = df_set df1 ''PowerConsumption'' consumption
                             in case df_get df2 ''CO2'' of
                                  Inl err \<Rightarrow> Inl err
                                | Inr co2 \<Rightarrow>
                                    (case co2_out_of_range co2 of
                                       Inl err \<Rightarrow> Inl err
                                     | Inr flags \<Rightarrow>
                                         df_select (df_set df2 ''Maintenance_Required'' flags)
                                           COLUMN_ORDER))))))"

subsection \<open>The tuple variants and the names they call\<close>

text \<open>
  The body of a method looks a bare name up in the module's globals (then in the
  built-ins, which have none of the names below); the attributes of the class are not
  in scope. \<open>module_globals\<close> lists what the module binds at top level: its imports, its
  constants, its three functions and its class.
\<close>

datatype pyglobal =
  PyModule | PyConstant | Fn_generateTimestamps | Fn_generateStationaryCols
  | Fn_simulatePowerOff | Class_ReeferSimulator

definition module_globals :: "(string \<times> pyglobal) list" where
  "module_globals =
     [(''csv'', PyModule), (''sys'', PyModule), (''json'', PyModule), (''datetime'', PyModule),
      (''random'', PyModule), (''np'', PyModule), (''pd'', PyModule), (''os'', PyModule),
      (''CO2_LEVEL'', PyConstant), (''O2_LEVEL'', PyConstant), (''NITROGEN_LEVEL'', PyConstant),
      (''POWER_LEVEL'', PyConstant), (''NB_RECORDS_IMPACTED'', PyConstant),
      (''MAX_RECORDS'', PyConstant), (''DEFROST_LEVEL'', PyConstant),
      (''_generateTimestamps'', Fn_generateTimestamps),
      (''_generateStationaryCols'', Fn_generateStationaryCols),
      (''_simulatePowerOff'', Fn_simulatePowerOff),
      (''ReeferSimulator'', Class_ReeferSimulator)]"

definition call_global :: "string \<Rightarrow> (pyglobal \<Rightarrow> error + 'a) \<Rightarrow> error + 'a" where
  \<comment> \<open>Evaluating \<^verbatim>\<open>name(...)\<close>: the name is resolved first, then the object is called.\<close>
  "call_global name call =
     (case map_of module_globals name of None \<Rightarrow> Inl (NameError name) | Some g \<Rightarrow> call g)"

definition call_as_generator :: "pyglobal \<Rightarrow> error + dataframe" where
  \<comment> \<open>What each object of the module does when it is called with the four or five
      positional arguments of a tuple variant: a module or a number is not callable, the
      class takes no arguments, \<^verbatim>\<open>_generateTimestamps\<close> and \<^verbatim>\<open>_simulatePowerOff\<close> take
      two, and \<^verbatim>\<open>_generateStationaryCols\<close> takes four, of which the container id would
      stand where the count is expected. Each of them raises TypeError.\<close>
  "call_as_generator g = Inl TypeError"

definition force_no_maintenance :: "int \<Rightarrow> dataframe \<Rightarrow> error + cell list list" where
  \<comment> \<open>The rest of a tuple variant: \<^verbatim>\<open>df["Maintenance_Required"] = np.repeat(0, nb_records)\<close>
      and \<^verbatim>\<open>return list(df.to_records(index=False))\<close>. \<^verbatim>\<open>np.repeat\<close> rejects a negative
      count, and the assignment a column whose length is not the frame's.\<close>
  "force_no_maintenance nb_records df =
     (if nb_records < 0 \<or> nat nb_records \<noteq> nrows df then Inl ValueError
      else Inr (to_records (df_set df ''Maintenance_Required'' (IntCol (replicate (nat nb_records) 0)))))"

definition generatePowerOffTuples ::
  "env \<Rightarrow> string \<Rightarrow> int \<Rightarrow> real \<Rightarrow> int option \<Rightarrow> int option \<Rightarrow> error + cell list list" where
  "generatePowerOffTuples e cid nb_records tgood content_type start_time =
     (case call_global ''generatePowerOff'' call_as_generator of
        Inl err \<Rightarrow> Inl err
      | Inr df \<Rightarrow> force_no_maintenance nb_records df)"

definition generateCo2Tuples ::
  "env \<Rightarrow> string \<Rightarrow> int \<Rightarrow> real \<Rightarrow> int option \<Rightarrow> int option \<Rightarrow> error + cell list list" where
  "generateCo2Tuples e cid nb_records tgood content_type start_time =
     (case call_global ''generateCo2'' call_as_generator of
        Inl err \<Rightarrow> Inl err
      | Inr df \<Rightarrow> force_no_maintenance nb_records df)"

subsection \<open>Observing the state machine row by row\<close>

fun state_after :: "(nat \<Rightarrow> real) \<Rightarrow> real \<Rightarrow> nat \<Rightarrow> sm_state \<Rightarrow> sm_state" where
  "state_after g tgood 0 s = s"
| "state_after g tgood (Suc i) s = state_after g tgood i (fst (loop_body g tgood s))"

definition row_state :: "env \<Rightarrow> real \<Rightarrow> nat \<Rightarrow> sm_state" where
  \<comment> \<open>The state of the loop when iteration \<open>i\<close> starts.\<close>
  "row_state e tgood i = state_after (py_gauss e) tgood i (initial_state (py_gauss e) tgood)"

definition sampled_temp :: "env \<Rightarrow> real \<Rightarrow> nat \<Rightarrow> real" where
  \<comment> \<open>Line 107 in iteration \<open>i\<close>.\<close>
  "sampled_temp e tgood i = gauss tgood 2.0 (py_gauss e (drawn (row_state e tgood i)))"

definition sampled_pwr :: "env \<Rightarrow> real \<Rightarrow> nat \<Rightarrow> real" where
  \<comment> \<open>Line 109 in iteration \<open>i\<close>.\<close>
  "sampled_pwr e tgood i = gauss POWER_LEVEL 6 (py_gauss e (drawn (row_state e tgood i) + 1))"

definition updated_pwrc :: "env \<Rightarrow> real \<Rightarrow> nat \<Rightarrow> real" where
  \<comment> \<open>\<^verbatim>\<open>pwrc\<close> after line 114 in iteration \<open>i\<close>.\<close>
  "updated_pwrc e tgood i =
     fst (update_pwrc (py_gauss e) (drawn (row_state e tgood i) + 2) (sampled_pwr e tgood i)
            (pwrc (row_state e tgood i)))"

definition counter_after_branch :: "env \<Rightarrow> real \<Rightarrow> nat \<Rightarrow> int" where
  \<comment> \<open>\<^verbatim>\<open>count_pwr\<close> after line 126 in iteration \<open>i\<close>.\<close>
  "counter_after_branch e tgood i =
     fst (snd (power_off_branch (sampled_pwr e tgood i) (count_pwr (row_state e tgood i))
                 (temp (row_state e tgood i)) (sampled_temp e tgood i)))"

definition machine_rows :: "env \<Rightarrow> real \<Rightarrow> nat \<Rightarrow> sm_row list" where
  \<comment> \<open>The rows the loop writes when it runs \<open>n\<close> times from the initial state.\<close>
  "machine_rows e tgood n = run_loop (py_gauss e) tgood n (initial_state (py_gauss e) tgood)"

definition emitted :: "env \<Rightarrow> real \<Rightarrow> nat \<Rightarrow> sm_row" where
  \<comment> \<open>What iteration \<open>i\<close> writes at lines 133 to 136.\<close>
  "emitted e tgood i = snd (loop_body (py_gauss e) tgood (row_state e tgood i))"

definition episode_start :: "env \<Rightarrow> real \<Rightarrow> nat \<Rightarrow> bool" where
  \<comment> \<open>Row \<open>i\<close> triggers an episode: the counter is 0 and the sampled power draw is negative.\<close>
  "episode_start e tgood i \<longleftrightarrow> count_pwr (row_state e tgood i) = 0 \<and> sampled_pwr e tgood i < 0"

definition zero_run_ending :: "real list \<Rightarrow> nat \<Rightarrow> nat" where
  \<comment> \<open>The length of the maximal run of zeros that ends at index \<open>i\<close>.\<close>
  "zero_run_ending xs i = length (takeWhile (\<lambda>x. x = 0) (rev (take (Suc i) xs)))"

subsection \<open>Random sources used as examples\<close>

definition steady_env :: env where
  \<comment> \<open>Every deviate is 0: every sample is its mean.\<close>
  "steady_env = \<lparr>py_gauss = (\<lambda>k. 0), py_randint = 0, np_normal = (\<lambda>k. 0),
                  np_randint = (\<lambda>k. 0), today = 0\<rparr>"

definition outage_env :: env where
  \<comment> \<open>Every deviate of \<^verbatim>\<open>random.gauss\<close> is -2: every sampled power draw is
      7.2 - 12 = -4.8.\<close>
  "outage_env = \<lparr>py_gauss = (\<lambda>k. - 2), py_randint = 0, np_normal = (\<lambda>k. 0),
                  np_randint = (\<lambda>k. 0), today = 0\<rparr>"

definition one_episode_env :: env where
  \<comment> \<open>The power draw of the first row is -4.8, every other sample is its mean; the CO2
      readings of \<^verbatim>\<open>np.random\<close> alternate between 4 + 3 = 7 and 4 - 3 = 1.\<close>
  "one_episode_env = \<lparr>py_gauss = (\<lambda>k. if k = 2 then - 2 else 0), py_randint = 0,
                       np_normal = (\<lambda>k. if even k then 1 else - 1),
                       np_randint = (\<lambda>k. k), today = 0\<rparr>"

definition column_of :: "error + dataframe \<Rightarrow> string \<Rightarrow> column option" where
  \<comment> \<open>The named column of the frame a call returned; nothing when the call raised.\<close>
  "column_of r name = (case r of Inl err \<Rightarrow> None | Inr df \<Rightarrow> map_of df name)"

definition one_episode_frame :: dataframe where
  \<comment> \<open>Eight rows of the power-loss scenario on \<open>one_episode_env\<close>, target 4.4.\<close>
  "one_episode_frame =
     [(''Timestamp'', TimeCol [0, 15, 30, 45, 60, 75, 90, 105]),
      (''ID'', StrCol [''101'', ''101'', ''101'', ''101'', ''101'', ''101'', ''101'', ''101'']),
      (''Temperature(celsius)'', FloatCol [4.4, 6, 8.4, 11.6, 15.6, 20.4, 26, 4.4]),
      (''Target_Temperature(celsius)'', FloatCol [4.4, 4.4, 4.4, 4.4, 4.4, 4.4, 4.4, 4.4]),
      (''Power'', FloatCol [0, 0, 0, 0, 0, 0, 0, 7.2]),
      (''PowerConsumption'', FloatCol [7.2, 14.4, 21.6, 28.8, 36, 43.2, 0, 7.2]),
      (''ContentType'', IntCol [1, 1, 1, 1, 1, 1, 1, 1]),
      (''O2'', FloatCol [24, 18, 24, 18, 24, 18, 24, 18]),
      (''CO2'', FloatCol [7, 1, 7, 1, 7, 1, 7, 1]),
      (''Time_Door_Open'', FloatCol [32, 28, 32, 28, 32, 28, 32, 28]),
      (''Maintenance_Required'', IntCol [0, 0, 0, 0, 0, 0, 1, 0]),
      (''Defrost_Cycle'', IntCol [0, 1, 2, 3, 4, 5, 6, 0])]"

definition outage_frame :: dataframe where
  \<comment> \<open>Eight rows of the power-loss scenario on \<open>outage_env\<close>, target 4.4.\<close>
  "outage_frame =
     [(''Timestamp'', TimeCol [0, 15, 30, 45, 60, 75, 90, 105]),
      (''ID'', StrCol [''101'', ''101'', ''101'', ''101'', ''101'', ''101'', ''101'', ''101'']),
      (''Temperature(celsius)'', FloatCol [- 1.6, - 1.6, - 1.6, - 1.6, - 1.6, - 1.6, - 1.6, - 1.6]),
      (''Target_Temperature(celsius)'', FloatCol [4.4, 4.4, 4.4, 4.4, 4.4, 4.4, 4.4, 4.4]),
      (''Power'', FloatCol [0, 0, 0, 0, 0, 0, 0, 0]),
      (''PowerConsumption'', FloatCol [- 12.8, - 17.6, - 22.4, - 27.2, - 32, - 36.8, 0, - 12.8]),
      (''ContentType'', IntCol [1, 1, 1, 1, 1, 1, 1, 1]),
      (''O2'', FloatCol [21, 21, 21, 21, 21, 21, 21, 21]),
      (''CO2'', FloatCol [4, 4, 4, 4, 4, 4, 4, 4]),
      (''Time_Door_Open'', FloatCol [30, 30, 30, 30, 30, 30, 30, 30]),
      (''Maintenance_Required'', IntCol [0, 0, 0, 0, 0, 0, 1, 0]),
      (''Defrost_Cycle'', IntCol [0, 0, 0, 0, 0, 0, 0, 0])]"

definition co2_env :: env where
  \<comment> \<open>The deviates of \<^verbatim>\<open>np.random\<close> repeat 1, -1, -2: for three rows the CO2 readings
      are 4 + 3 = 7, 4 - 3 = 1 and 4 - 6 = -2, the power draws 13.2, 1.2 and -4.8.\<close>
  "co2_env = \<lparr>py_gauss = (\<lambda>k. 0), py_randint = 7,
               np_normal = (\<lambda>k. if k mod 3 = 0 then 1 else if k mod 3 = 1 then - 1 else - 2),
               np_randint = (\<lambda>k. 10 * k + 8), today = 600\<rparr>"

definition co2_frame :: dataframe where
  \<comment> \<open>Three rows of the CO2 scenario on \<open>co2_env\<close>, target 4.4.\<close>
  "co2_frame =
     [(''Timestamp'', TimeCol [600, 615, 630]),
      (''ID'', StrCol [''101'', ''101'', ''101'']),
      (''Temperature(celsius)'', FloatCol [6.4, 2.4, 0.4]),
      (''Target_Temperature(celsius)'', FloatCol [4.4, 4.4, 4.4]),
      (''Power'', FloatCol [13.2, 1.2, - 4.8]),
      (''PowerConsumption'', FloatCol [13.2, 14.4, 9.6]),
      (''ContentType'', IntCol [3, 3, 3]),
      (''O2'', FloatCol [24, 18, 15]),
      (''CO2'', FloatCol [7, 1, - 2]),
      (''Time_Door_Open'', FloatCol [32, 28, 26]),
      (''Maintenance_Required'', IntCol [1, 0, 1]),
      (''Defrost_Cycle'', IntCol [1, 4, 0])]"

definition empty_frame :: dataframe where
  \<comment> \<open>The twelve columns, in canonical order, with no row.\<close>
  "empty_frame =
     [(''Timestamp'', TimeCol []), (''ID'', StrCol []), (''Temperature(celsius)'', FloatCol []),
      (''Target_Temperature(celsius)'', FloatCol []), (''Power'', FloatCol []),
      (''PowerConsumption'', FloatCol []), (''ContentType'', IntCol []), (''O2'', FloatCol []),
      (''CO2'', FloatCol []), (''Time_Door_Open'', FloatCol []),
      (''Maintenance_Required'', IntCol []), (''Defrost_Cycle'', IntCol [])]"

section \<open>The loop, row by row\<close>

lemma length_run_loop: "length (run_loop g tgood k s) = k"
  by (induction k arbitrary: s) (auto split: prod.splits)

lemma state_after_Suc:
  "state_after g tgood (Suc i) s = fst (loop_body g tgood (state_after g tgood i s))"
  by (induction i arbitrary: s) simp_all

lemma run_loop_nth:
  "i < k \<Longrightarrow> run_loop g tgood k s ! i = snd (loop_body g tgood (state_after g tgood i s))"
proof (induction k arbitrary: i s)
  case 0
  then show ?case by simp
next
  case (Suc k)
  show ?case
  proof (cases i)
    case 0
    then show ?thesis by (simp split: prod.splits)
  next
    case (Suc j)
    with Suc.prems have "j < k" by simp
    from Suc.IH[OF this] Suc show ?thesis by (simp split: prod.splits)
  qed
qed

lemma length_machine_rows: "length (machine_rows e tgood n) = n"
  by (simp add: machine_rows_def length_run_loop)

lemma machine_rows_nth: "i < n \<Longrightarrow> machine_rows e tgood n ! i = emitted e tgood i"
  by (simp add: machine_rows_def emitted_def row_state_def run_loop_nth)

lemma row_state_0: "row_state e tgood 0 = initial_state (py_gauss e) tgood"
  by (simp add: row_state_def)

lemma row_state_Suc:
  "row_state e tgood (Suc i) = fst (loop_body (py_gauss e) tgood (row_state e tgood i))"
  unfolding row_state_def by (rule state_after_Suc)

text \<open>The four columns of the state machine reach the returned frame unchanged.\<close>

lemma generatePowerOff_columns:
  assumes "generatePowerOff e cid nb_records tgood content_type start_time = Inr df"
  shows "0 \<le> nb_records"
    and "float_col df ''Temperature(celsius)'' = map row_temp (machine_rows e tgood (nat nb_records))"
    and "int_col df ''Maintenance_Required'' = map row_maint (machine_rows e tgood (nat nb_records))"
    and "float_col df ''Power'' = map row_power (machine_rows e tgood (nat nb_records))"
    and "float_col df ''PowerConsumption'' = map row_pwrc (machine_rows e tgood (nat nb_records))"
  using assms
  by (auto simp: generatePowerOff_def generateStationaryCols_def generateTimestamps_def
      simulatePowerOff_def Let_def df_get_def COLUMN_ORDER_def float_col_def int_col_def
      machine_rows_def split: if_splits)

text \<open>What one iteration writes and leaves behind, in terms of the stages of the loop body.\<close>

lemma emitted_power:
  "row_power (emitted e tgood i) =
     fst (power_off_branch (sampled_pwr e tgood i) (count_pwr (row_state e tgood i))
            (temp (row_state e tgood i)) (sampled_temp e tgood i))"
  by (simp add: emitted_def loop_body_def Let_def split_def sampled_pwr_def sampled_temp_def)

lemma emitted_temp:
  "row_temp (emitted e tgood i) =
     snd (snd (power_off_branch (sampled_pwr e tgood i) (count_pwr (row_state e tgood i))
            (temp (row_state e tgood i)) (sampled_temp e tgood i)))"
  by (simp add: emitted_def loop_body_def Let_def split_def sampled_pwr_def sampled_temp_def)

lemma emitted_maint:
  "row_maint (emitted e tgood i) =
     (if counter_after_branch e tgood i = NB_RECORDS_IMPACTED then 1 else 0)"
  by (simp add: emitted_def loop_body_def Let_def split_def sampled_pwr_def sampled_temp_def
      counter_after_branch_def flag_episode_def)

lemma emitted_pwrc:
  "row_pwrc (emitted e tgood i) =
     (if counter_after_branch e tgood i = NB_RECORDS_IMPACTED then 0 else updated_pwrc e tgood i)"
  by (simp add: emitted_def loop_body_def Let_def split_def sampled_pwr_def sampled_temp_def
      counter_after_branch_def flag_episode_def updated_pwrc_def)

lemma next_counter:
  "count_pwr (row_state e tgood (Suc i)) =
     (if counter_after_branch e tgood i = NB_RECORDS_IMPACTED then 0
      else counter_after_branch e tgood i)"
  by (simp add: row_state_Suc loop_body_def Let_def split_def sampled_pwr_def sampled_temp_def
      counter_after_branch_def flag_episode_def)

lemma next_pwrc: "pwrc (row_state e tgood (Suc i)) = row_pwrc (emitted e tgood i)"
  by (simp add: row_state_Suc emitted_def loop_body_def Let_def split_def)

lemma next_temp: "temp (row_state e tgood (Suc i)) = row_temp (emitted e tgood i)"
  by (simp add: row_state_Suc emitted_def loop_body_def Let_def split_def)

lemma counter_after_branch_cases:
  "counter_after_branch e tgood i =
     (if sampled_pwr e tgood i < 0
         \<or> (0 < count_pwr (row_state e tgood i) \<and> count_pwr (row_state e tgood i) < 7)
      then count_pwr (row_state e tgood i) + 1 else count_pwr (row_state e tgood i))"
  by (simp add: counter_after_branch_def power_off_branch_def NB_RECORDS_IMPACTED_def)

lemma emitted_power_cases:
  "row_power (emitted e tgood i) =
     (if sampled_pwr e tgood i < 0
         \<or> (0 < count_pwr (row_state e tgood i) \<and> count_pwr (row_state e tgood i) < 7)
      then 0 else sampled_pwr e tgood i)"
  by (simp add: emitted_power power_off_branch_def NB_RECORDS_IMPACTED_def)

lemma counter_range:
  "0 \<le> count_pwr (row_state e tgood i) \<and> count_pwr (row_state e tgood i) \<le> 6"
proof (induction i)
  case 0
  show ?case by (simp add: row_state_0 initial_state_def)
next
  case (Suc i)
  then show ?case
    by (simp add: next_counter counter_after_branch_cases NB_RECORDS_IMPACTED_def)
qed

lemma flagged_row:
  assumes "row_maint (emitted e tgood i) = 1"
  shows "count_pwr (row_state e tgood i) = 6" and "row_power (emitted e tgood i) = 0"
    and "row_pwrc (emitted e tgood i) = 0"
proof -
  from assms have seven: "counter_after_branch e tgood i = 7"
    by (simp add: emitted_maint NB_RECORDS_IMPACTED_def split: if_splits)
  with counter_range[of e tgood i] show "count_pwr (row_state e tgood i) = 6"
    by (simp add: counter_after_branch_cases split: if_splits)
  from seven counter_range[of e tgood i] show "row_power (emitted e tgood i) = 0"
    by (simp add: counter_after_branch_cases emitted_power_cases split: if_splits)
  from seven show "row_pwrc (emitted e tgood i) = 0"
    by (simp add: emitted_pwrc NB_RECORDS_IMPACTED_def)
qed

lemma inside_episode:
  assumes "0 < count_pwr (row_state e tgood (Suc k))"
  shows "row_power (emitted e tgood k) = 0"
    and "count_pwr (row_state e tgood k) = count_pwr (row_state e tgood (Suc k)) - 1"
    and "row_maint (emitted e tgood k) = 0"
  using assms counter_range[of e tgood k]
  by (auto simp: next_counter counter_after_branch_cases emitted_power_cases emitted_maint
      NB_RECORDS_IMPACTED_def split: if_splits)

lemma episode_rows:
  assumes "j < nat (count_pwr (row_state e tgood k))"
  shows "Suc j \<le> k \<and> row_power (emitted e tgood (k - Suc j)) = 0
         \<and> row_maint (emitted e tgood (k - Suc j)) = 0
         \<and> count_pwr (row_state e tgood (k - Suc j)) = count_pwr (row_state e tgood k) - 1 - int j"
  using assms
proof (induction j)
  case 0
  then have pos: "0 < count_pwr (row_state e tgood k)" by simp
  have "k \<noteq> 0"
    using pos by (cases k) (auto simp: row_state_0 initial_state_def)
  then obtain m where k: "k = Suc m" by (cases k) auto
  from inside_episode[of e tgood m] pos k show ?case by simp
next
  case (Suc j)
  then have IH: "Suc j \<le> k" "count_pwr (row_state e tgood (k - Suc j)) = count_pwr (row_state e tgood k) - 1 - int j"
    by simp_all
  from Suc.prems IH(2) have pos: "0 < count_pwr (row_state e tgood (k - Suc j))" by linarith
  have "k - Suc j \<noteq> 0"
  proof
    assume "k - Suc j = 0"
    with pos show False by (simp add: row_state_0 initial_state_def)
  qed
  then obtain m where m: "k - Suc j = Suc m" by (cases "k - Suc j") auto
  then have m': "m = k - Suc (Suc j)" "Suc (Suc j) \<le> k" by linarith+
  from inside_episode[of e tgood m] pos m IH(2) m' show ?case by simp
qed

text \<open>Reading a row of the returned frame is reading what the iteration wrote.\<close>

lemma row_lookup:
  assumes "generatePowerOff e cid nb_records tgood content_type start_time = Inr df"
    and "i < nat nb_records"
  shows "float_col df ''Temperature(celsius)'' ! i = row_temp (emitted e tgood i)"
    and "int_col df ''Maintenance_Required'' ! i = row_maint (emitted e tgood i)"
    and "float_col df ''Power'' ! i = row_power (emitted e tgood i)"
    and "float_col df ''PowerConsumption'' ! i = row_pwrc (emitted e tgood i)"
  using assms(2)
  by (simp_all add: generatePowerOff_columns[OF assms(1)] length_machine_rows machine_rows_nth)

lemma column_lengths:
  assumes "generatePowerOff e cid nb_records tgood content_type start_time = Inr df"
  shows "length (float_col df ''Temperature(celsius)'') = nat nb_records"
    and "length (int_col df ''Maintenance_Required'') = nat nb_records"
    and "length (float_col df ''Power'') = nat nb_records"
    and "length (float_col df ''PowerConsumption'') = nat nb_records"
  by (simp_all add: generatePowerOff_columns[OF assms] length_machine_rows)

lemma previous_temp:
  assumes "generatePowerOff e cid nb_records tgood content_type start_time = Inr df"
    and "i < nat nb_records"
  shows "temp (row_state e tgood i) =
           (if i = 0 then gauss tgood 3.0 (py_gauss e 0)
            else float_col df ''Temperature(celsius)'' ! (i - 1))"
proof (cases i)
  case 0
  then show ?thesis by (simp add: row_state_0 initial_state_def)
next
  case (Suc k)
  with assms(2) have "k < nat nb_records" by simp
  from row_lookup(1)[OF assms(1) this] Suc show ?thesis by (simp add: next_temp)
qed

lemma counter_after_branch_le: "counter_after_branch e tgood i \<le> 7"
  using counter_range[of e tgood i] by (simp add: counter_after_branch_cases)

lemma forced_off:
  assumes "row_power (emitted e tgood i) = 0" and "sampled_pwr e tgood i \<noteq> 0"
  shows "counter_after_branch e tgood i = count_pwr (row_state e tgood i) + 1"
  using assms by (simp add: emitted_power_cases counter_after_branch_cases split: if_splits)

lemma continues_off:
  assumes "0 < count_pwr (row_state e tgood i)"
  shows "counter_after_branch e tgood i = count_pwr (row_state e tgood i) + 1"
  using assms counter_range[of e tgood i] by (simp add: counter_after_branch_cases)

lemma unflagged_run_counts:
  assumes first: "row_power (emitted e tgood i) = 0" "sampled_pwr e tgood i \<noteq> 0"
    and unflagged: "\<And>j. j < m \<Longrightarrow> row_maint (emitted e tgood (i + j)) = 0"
  shows "int m + 1 \<le> counter_after_branch e tgood (i + m)"
  using unflagged
proof (induction m)
  case 0
  from forced_off[OF first] counter_range[of e tgood i] show ?case by simp
next
  case (Suc m)
  then have IH: "int m + 1 \<le> counter_after_branch e tgood (i + m)" by simp
  from Suc.prems[of m] have "counter_after_branch e tgood (i + m) \<noteq> 7"
    by (simp add: emitted_maint NB_RECORDS_IMPACTED_def split: if_splits)
  then have nxt: "count_pwr (row_state e tgood (Suc (i + m))) = counter_after_branch e tgood (i + m)"
    by (simp add: next_counter NB_RECORDS_IMPACTED_def)
  with IH have "0 < count_pwr (row_state e tgood (Suc (i + m)))" by linarith
  from continues_off[OF this] nxt IH show ?case by simp
qed

lemma list_all_window:
  assumes "i + k \<le> length xs"
  shows "list_all P (take k (drop i xs)) \<longleftrightarrow> (\<forall>j<k. P (xs ! (i + j)))"
  using assms by (auto simp: list_all_length)

lemma zero_run_at_least:
  assumes "m \<le> i" and "i < length xs" and "\<forall>j\<le>m. xs ! (i - j) = 0"
  shows "Suc m \<le> zero_run_ending xs i"
proof -
  let ?w = "take (Suc m) (drop (i - m) xs)"
  from assms(1) have "Suc i = (i - m) + Suc m" by simp
  then have "take (Suc i) xs = take ((i - m) + Suc m) xs" by simp
  also have "\<dots> = take (i - m) xs @ ?w" by (rule take_add)
  finally have split: "rev (take (Suc i) xs) = rev ?w @ rev (take (i - m) xs)" by simp
  have len: "length ?w = Suc m" using assms(1,2) by simp
  have zeros: "x = 0" if "x \<in> set (rev ?w)" for x
  proof -
    from that have "x \<in> set ?w" by simp
    then obtain j where j: "j < length ?w" "x = ?w ! j" by (metis in_set_conv_nth)
    from j(1) len have jm: "j \<le> m" by simp
    with assms(1,2) j have "x = xs ! (i - m + j)" by simp
    moreover from jm assms(1) have "i - m + j = i - (m - j)" by simp
    moreover from assms(3) have "xs ! (i - (m - j)) = 0" by simp
    ultimately show ?thesis by (simp only:)
  qed
  then have "takeWhile (\<lambda>x. x = 0) (rev ?w @ rev (take (i - m) xs))
        = rev ?w @ takeWhile (\<lambda>x. x = 0) (rev (take (i - m) xs))"
    by (intro takeWhile_append2) simp
  then show ?thesis
    unfolding zero_run_ending_def split using len by simp
qed

lemma previous_pwrc:
  assumes "generatePowerOff e cid nb_records tgood content_type start_time = Inr df"
    and "i < nat nb_records"
  shows "pwrc (row_state e tgood i) =
           (if i = 0 then 0 else float_col df ''PowerConsumption'' ! (i - 1))"
proof (cases i)
  case 0
  then show ?thesis by (simp add: row_state_0 initial_state_def)
next
  case (Suc k)
  with assms(2) have "k < nat nb_records" by simp
  from row_lookup(4)[OF assms(1) this] Suc show ?thesis by (simp add: next_pwrc)
qed

lemma generatePowerOff_returns:
  assumes "0 \<le> nb_records"
  shows "\<exists>df. generatePowerOff e cid nb_records tgood content_type start_time = Inr df"
  using assms
  by (simp add: generatePowerOff_def generateStationaryCols_def generateTimestamps_def
      simulatePowerOff_def Let_def df_get_def COLUMN_ORDER_def)

lemma steady_state:
  "count_pwr (row_state steady_env tgood i) = 0
   \<and> pwrc (row_state steady_env tgood i) = 7.2 * real i"
proof (induction i)
  case 0
  show ?case by (simp add: row_state_0 initial_state_def)
next
  case (Suc i)
  have pwr: "sampled_pwr steady_env tgood i = 7.2"
    by (simp add: sampled_pwr_def steady_env_def gauss_def POWER_LEVEL_def)
  from Suc pwr have c: "counter_after_branch steady_env tgood i = 0"
    by (simp add: counter_after_branch_cases)
  from Suc pwr have "updated_pwrc steady_env tgood i = 7.2 * real (Suc i)"
    by (simp add: updated_pwrc_def update_pwrc_def steady_env_def gauss_def POWER_LEVEL_def
        algebra_simps)
  with c show ?case
    by (simp add: next_counter next_pwrc emitted_pwrc NB_RECORDS_IMPACTED_def)
qed

lemma steady_growth:
  "\<exists>n df. generatePowerOff steady_env cid n tgood content_type start_time = Inr df
      \<and> B < last (float_col df ''PowerConsumption'')"
proof -
  define m where "m = nat \<lceil>B\<rceil>"
  have "0 \<le> int (Suc m)" by simp
  from generatePowerOff_returns[OF this]
  obtain df where df: "generatePowerOff steady_env cid (int (Suc m)) tgood content_type start_time = Inr df"
    by blast
  have len: "length (float_col df ''PowerConsumption'') = Suc m"
    using column_lengths(4)[OF df] by simp
  then have "last (float_col df ''PowerConsumption'') = float_col df ''PowerConsumption'' ! m"
    by (metis diff_Suc_1 last_conv_nth length_0_conv nat.distinct(1))
  also have "\<dots> = row_pwrc (emitted steady_env tgood m)"
    using row_lookup(4)[OF df, of m] by simp
  also have "\<dots> = 7.2 * real (Suc m)"
    using steady_state[of tgood "Suc m"] by (simp add: next_pwrc)
  finally have val: "last (float_col df ''PowerConsumption'') = 7.2 * real (Suc m)" .
  have "B \<le> real m" unfolding m_def by linarith
  then have "B < 7.2 * real (Suc m)" by simp
  with val have "B < last (float_col df ''PowerConsumption'')" by (simp only:)
  with df show ?thesis by blast
qed

text \<open>The CO2 scenario: where its columns come from.\<close>

lemma cumsum_from_length: "length (cumsum_from acc xs) = length xs"
  by (induction xs arbitrary: acc) simp_all

lemma cumsum_from_nth:
  fixes xs :: "real list"
  shows "i < length xs \<Longrightarrow> cumsum_from acc xs ! i = acc + sum_list (take (Suc i) xs)"
proof (induction xs arbitrary: acc i)
  case Nil
  then show ?case by simp
next
  case (Cons x xs)
  show ?case
  proof (cases i)
    case 0
    then show ?thesis by simp
  next
    case (Suc j)
    with Cons.prems have "j < length xs" by simp
    from Cons.IH[OF this, of "acc + x"] Suc show ?thesis by (simp add: add.assoc)
  qed
qed

lemma generateCo2_columns:
  assumes "generateCo2 e cid nb_records tgood content_type start_time = Inr df"
  shows "0 \<le> nb_records"
    and "float_col df ''CO2'' = np_random_normal e CO2_LEVEL 3.0 (nat nb_records) (nat nb_records)"
    and "float_col df ''Power'' = np_random_normal e POWER_LEVEL 6 (4 * nat nb_records) (nat nb_records)"
    and "int_col df ''Maintenance_Required'' =
           map (\<lambda>x. if x > CO2_LEVEL \<or> x < 0 then 1 else 0) (float_col df ''CO2'')"
    and "float_col df ''PowerConsumption'' = cumsum_from 0 (float_col df ''Power'')"
  using assms
  by (auto simp: generateCo2_def generateStationaryCols_def generateTimestamps_def
      Let_def df_get_def COLUMN_ORDER_def float_col_def int_col_def split: if_splits)

lemma np_random_normal_length: "length (np_random_normal e loc scale off n) = n"
  by (simp add: np_random_normal_def)

text \<open>
  The last two statements of a tuple variant, applied to the frame of the scenario's own
  tabular generator: one tuple of twelve fields per row, the eleventh being 0.
\<close>

lemma rewired_tuples:
  assumes "generatePowerOff e cid nb_records tgood content_type start_time = Inr df"
  shows "\<exists>rows. force_no_maintenance nb_records df = Inr rows \<and> length rows = nat nb_records
           \<and> (\<forall>r \<in> set rows. length r = 12 \<and> r ! 10 = IntCell 0)"
  using assms
  by (auto simp: generatePowerOff_def generateStationaryCols_def generateTimestamps_def
      simulatePowerOff_def Let_def df_get_def COLUMN_ORDER_def force_no_maintenance_def
      nrows_def to_records_def split: if_splits)

lemma rewired_co2_tuples:
  assumes "generateCo2 e cid nb_records tgood content_type start_time = Inr df"
  shows "\<exists>rows. force_no_maintenance nb_records df = Inr rows \<and> length rows = nat nb_records
           \<and> (\<forall>r \<in> set rows. length r = 12 \<and> r ! 10 = IntCell 0)"
  using assms
  by (auto simp: generateCo2_def generateStationaryCols_def generateTimestamps_def
      Let_def df_get_def COLUMN_ORDER_def force_no_maintenance_def
      nrows_def to_records_def split: if_splits)

lemma co2_run:
  "generateCo2 co2_env ''101'' 3 4.4 None None = Inr co2_frame"
  by code_simp

lemma one_episode_run:
  "generatePowerOff one_episode_env ''101'' 8 4.4 None None = Inr one_episode_frame"
  by code_simp

lemma outage_run:
  "generatePowerOff outage_env ''101'' 8 4.4 (Some 1) (Some 0) = Inr outage_frame"
  by code_simp

section \<open>The branches of the power-loss state machine\<close>

text \<open>
  C1. For every row \<open>i\<close> of every frame the power-loss scenario returns, with \<open>c\<close> the run
  counter and \<open>pwr\<close> the sampled power draw of the iteration: if \<open>pwr\<close> is negative, the
  row's Power is 0, the counter becomes \<open>c + 1\<close> and the row's Temperature is the previous
  row's temperature (for the first row, the initial temperature drawn before the loop);
  otherwise, if \<open>0 < c < 7\<close>, the counter becomes \<open>c + 1\<close>, Power is 0 and Temperature is
  the previous row's temperature plus 0.8 times the incremented counter; otherwise
  Temperature and Power are the freshly sampled values and the counter is unchanged.
\<close>

theorem power_off_branch_per_row:
  assumes "generatePowerOff e cid nb_records tgood content_type start_time = Inr df"
    and "i < nat nb_records"
  shows "if sampled_pwr e tgood i < 0
         then float_col df ''Power'' ! i = 0
            \<and> counter_after_branch e tgood i = count_pwr (row_state e tgood i) + 1
            \<and> float_col df ''Temperature(celsius)'' ! i =
                (if i = 0 then gauss tgood 3.0 (py_gauss e 0)
                 else float_col df ''Temperature(celsius)'' ! (i - 1))
         else if 0 < count_pwr (row_state e tgood i) \<and> count_pwr (row_state e tgood i) < 7
         then counter_after_branch e tgood i = count_pwr (row_state e tgood i) + 1
            \<and> float_col df ''Power'' ! i = 0
            \<and> float_col df ''Temperature(celsius)'' ! i =
                (if i = 0 then gauss tgood 3.0 (py_gauss e 0)
                 else float_col df ''Temperature(celsius)'' ! (i - 1))
                + 0.8 * real_of_int (counter_after_branch e tgood i)
         else float_col df ''Temperature(celsius)'' ! i = sampled_temp e tgood i
            \<and> float_col df ''Power'' ! i = sampled_pwr e tgood i
            \<and> counter_after_branch e tgood i = count_pwr (row_state e tgood i)"
proof -
  note prev = previous_temp[OF assms, symmetric]
  note rows = row_lookup[OF assms]
  show ?thesis
    unfolding prev rows
    by (simp add: emitted_power emitted_temp counter_after_branch_def power_off_branch_def
        NB_RECORDS_IMPACTED_def)
qed

text \<open>
  The second row of \<open>one_episode_frame\<close>: the sample is not negative, the counter is 1, so
  the row continues the episode and its temperature is 4.4 + 0.8 * 2 = 6.
\<close>

theorem power_off_branch_per_row_witness:
  "generatePowerOff one_episode_env ''101'' 8 4.4 None None = Inr one_episode_frame
   \<and> (1::nat) < nat 8
   \<and> \<not> sampled_pwr one_episode_env 4.4 1 < 0
   \<and> count_pwr (row_state one_episode_env 4.4 1) = 1
   \<and> counter_after_branch one_episode_env 4.4 1 = 2
   \<and> float_col one_episode_frame ''Power'' ! 1 = 0
   \<and> float_col one_episode_frame ''Temperature(celsius)'' ! 1 =
       float_col one_episode_frame ''Temperature(celsius)'' ! 0 + 0.8 * 2"
proof -
  have pwr: "\<not> sampled_pwr one_episode_env 4.4 1 < 0" by code_simp
  have c: "count_pwr (row_state one_episode_env 4.4 1) = 1" by code_simp
  from power_off_branch_per_row[OF one_episode_run, of 1] pwr c one_episode_run
  show ?thesis by simp
qed

section \<open>Runs of zero-power rows\<close>

text \<open>
  C4, as stated: no contiguous run of rows with Power == 0 is longer than 7. It fails:
  when every sampled power draw is negative (\<open>outage_env\<close>: each is -4.8), the first
  episode ends on the seventh row and the eighth row starts the next one, so all eight
  rows of an eight-row frame have Power == 0.
\<close>

theorem zero_power_run_of_eight:
  "column_of (generatePowerOff outage_env ''101'' 8 4.4 (Some 1) (Some 0)) ''Power''
     = Some (FloatCol [0, 0, 0, 0, 0, 0, 0, 0])
   \<and> column_of (generatePowerOff outage_env ''101'' 8 4.4 (Some 1) (Some 0)) ''Maintenance_Required''
     = Some (IntCol [0, 0, 0, 0, 0, 0, 1, 0])"
  by code_simp

text \<open>
  C4, amended. In every frame of the power-loss scenario in which no sampled power draw
  is exactly 0: a contiguous run of \<open>k\<close> rows with Power == 0, starting at row \<open>i\<close>, of
  which none but possibly the last has Maintenance_Required == 1, has at most 7
  (\<open>NB_RECORDS_IMPACTED\<close>) rows; and every zero-power row \<open>r\<close> other than the triggering
  first row of an episode is immediately preceded by another zero-power row.
\<close>

theorem zero_power_runs_end_with_flag:
  assumes "generatePowerOff e cid nb_records tgood content_type start_time = Inr df"
    and "list_all (\<lambda>j. sampled_pwr e tgood j \<noteq> 0) [0..<nat nb_records]"
  shows "(i + k \<le> nat nb_records
            \<and> list_all (\<lambda>x. x = 0) (take k (drop i (float_col df ''Power'')))
            \<and> list_all (\<lambda>m. m = 0) (take (k - 1) (drop i (int_col df ''Maintenance_Required'')))
          \<longrightarrow> int k \<le> NB_RECORDS_IMPACTED)
       \<and> (r < nat nb_records \<and> float_col df ''Power'' ! r = 0 \<and> \<not> episode_start e tgood r
          \<longrightarrow> 0 < r \<and> float_col df ''Power'' ! (r - 1) = 0)"
proof (intro conjI impI)
  note len = column_lengths[OF assms(1)]
  have nz: "sampled_pwr e tgood j \<noteq> 0" if "j < nat nb_records" for j
    using assms(2) that by (simp add: list_all_iff)
  {
    assume run: "i + k \<le> nat nb_records
            \<and> list_all (\<lambda>x. x = 0) (take k (drop i (float_col df ''Power'')))
            \<and> list_all (\<lambda>m. m = 0) (take (k - 1) (drop i (int_col df ''Maintenance_Required'')))"
    show "int k \<le> NB_RECORDS_IMPACTED"
    proof (cases k)
      case 0
      then show ?thesis by (simp add: NB_RECORDS_IMPACTED_def)
    next
      case (Suc m)
      with run have bound: "i + Suc m \<le> nat nb_records" by simp
      from run Suc have "float_col df ''Power'' ! (i + 0) = 0"
        using list_all_window[of i k "float_col df ''Power''" "\<lambda>x. x = 0"] len(3) by auto
      with bound have p0: "row_power (emitted e tgood i) = 0"
        using row_lookup(3)[OF assms(1), of i] by simp
      have unfl: "row_maint (emitted e tgood (i + j)) = 0" if "j < m" for j
      proof -
        from run Suc bound that have "int_col df ''Maintenance_Required'' ! (i + j) = 0"
          using list_all_window[of i m "int_col df ''Maintenance_Required''" "\<lambda>x. x = 0"] len(2)
          by auto
        with bound that show ?thesis
          using row_lookup(2)[OF assms(1), of "i + j"] by simp
      qed
      from bound have "sampled_pwr e tgood i \<noteq> 0" by (intro nz) simp
      from unflagged_run_counts[OF p0 this, of m] unfl
      have "int m + 1 \<le> counter_after_branch e tgood (i + m)" by blast
      with counter_after_branch_le[of e tgood "i + m"] Suc
      show ?thesis by (simp add: NB_RECORDS_IMPACTED_def)
    qed
  }
  {
    assume row: "r < nat nb_records \<and> float_col df ''Power'' ! r = 0 \<and> \<not> episode_start e tgood r"
    then have p0: "row_power (emitted e tgood r) = 0"
      using row_lookup(3)[OF assms(1), of r] by simp
    from row have "sampled_pwr e tgood r \<noteq> 0" by (intro nz) simp
    with p0 row have pos: "0 < count_pwr (row_state e tgood r)"
      using counter_range[of e tgood r]
      by (auto simp: emitted_power_cases episode_start_def split: if_splits)
    show "0 < r"
    proof (rule ccontr)
      assume "\<not> 0 < r"
      with pos show False by (simp add: row_state_0 initial_state_def)
    qed
    then obtain m where m: "r = Suc m" by (cases r) auto
    from inside_episode(1)[of e tgood m] pos m row show "float_col df ''Power'' ! (r - 1) = 0"
      using row_lookup(3)[OF assms(1), of m] by simp
  }
qed

text \<open>
  On \<open>one_episode_frame\<close>: rows 0 to 6 are a run of seven zero-power rows whose first six
  are not flagged, and row 1 is a zero-power row that does not start an episode.
\<close>

theorem zero_power_runs_end_with_flag_witness:
  "generatePowerOff one_episode_env ''101'' 8 4.4 None None = Inr one_episode_frame
   \<and> list_all (\<lambda>j. sampled_pwr one_episode_env 4.4 j \<noteq> 0) [0..<nat 8]
   \<and> 0 + 7 \<le> nat 8
   \<and> list_all (\<lambda>x. x = 0) (take 7 (drop 0 (float_col one_episode_frame ''Power'')))
   \<and> list_all (\<lambda>m. m = 0) (take (7 - 1) (drop 0 (int_col one_episode_frame ''Maintenance_Required'')))
   \<and> int 7 \<le> NB_RECORDS_IMPACTED
   \<and> 1 < nat 8 \<and> float_col one_episode_frame ''Power'' ! 1 = 0
   \<and> \<not> episode_start one_episode_env 4.4 1
   \<and> (0::nat) < 1 \<and> float_col one_episode_frame ''Power'' ! (1 - 1) = 0"
proof -
  have nz: "list_all (\<lambda>j. sampled_pwr one_episode_env 4.4 j \<noteq> 0) [0..<nat 8]"
    by code_simp
  have window: "0 + 7 \<le> nat 8
     \<and> list_all (\<lambda>x. x = 0) (take 7 (drop 0 (float_col one_episode_frame ''Power'')))
     \<and> list_all (\<lambda>m. m = 0) (take (7 - 1) (drop 0 (int_col one_episode_frame ''Maintenance_Required'')))"
    by code_simp
  have row: "1 < nat 8 \<and> float_col one_episode_frame ''Power'' ! 1 = 0
     \<and> \<not> episode_start one_episode_env 4.4 1"
    by code_simp
  from zero_power_runs_end_with_flag[OF one_episode_run nz, of 0 7 1] window row
  have "int 7 \<le> NB_RECORDS_IMPACTED
        \<and> (0::nat) < 1 \<and> float_col one_episode_frame ''Power'' ! (1 - 1) = 0"
    by blast
  with one_episode_run nz window row show ?thesis by blast
qed

section \<open>Flagged rows\<close>

text \<open>
  C5, as stated: the run of zero-power rows that ends at a flagged row has length exactly
  7. It fails when two episodes abut: with every sampled power draw negative
  (\<open>outage_env\<close>), rows 6 and 13 of a fourteen-row frame are flagged, all fourteen rows
  have Power == 0, and the run that ends at row 13 has fourteen rows.
\<close>

theorem flagged_row_after_fourteen_zero_power_rows:
  "column_of (generatePowerOff outage_env ''101'' 14 4.4 (Some 1) (Some 0)) ''Maintenance_Required''
     = Some (IntCol [0, 0, 0, 0, 0, 0, 1, 0, 0, 0, 0, 0, 0, 1])
   \<and> column_of (generatePowerOff outage_env ''101'' 14 4.4 (Some 1) (Some 0)) ''Power''
     = Some (FloatCol [0, 0, 0, 0, 0, 0, 0, 0, 0, 0, 0, 0, 0, 0])
   \<and> zero_run_ending [0, 0, 0, 0, 0, 0, 0, 0, 0, 0, 0, 0, 0, 0] 13 = 14"
  by code_simp

text \<open>
  C5, amended. In every frame of the power-loss scenario, for every row \<open>i\<close>: the row is
  flagged exactly when the run counter reaches 7 on it, and is 0 otherwise; when it is
  flagged, the seven rows \<open>i - 6\<close> to \<open>i\<close> all have Power == 0, none of the six before
  \<open>i\<close> is flagged and the counter was 0 when row \<open>i - 6\<close> started (they are the episode),
  so the run of zero-power rows that ends at row \<open>i\<close> has length at least 7; and the
  counter and the consumption accumulator are 0 when the next iteration starts.
\<close>

theorem flagged_row_ends_episode:
  assumes "generatePowerOff e cid nb_records tgood content_type start_time = Inr df"
    and "i < nat nb_records"
  shows "(int_col df ''Maintenance_Required'' ! i = 1
            \<longleftrightarrow> counter_after_branch e tgood i = NB_RECORDS_IMPACTED)
       \<and> (int_col df ''Maintenance_Required'' ! i \<noteq> 1
            \<longrightarrow> int_col df ''Maintenance_Required'' ! i = 0)
       \<and> (int_col df ''Maintenance_Required'' ! i = 1 \<longrightarrow>
            6 \<le> i
          \<and> list_all (\<lambda>x. x = 0) (take 7 (drop (i - 6) (float_col df ''Power'')))
          \<and> list_all (\<lambda>m. m = 0) (take 6 (drop (i - 6) (int_col df ''Maintenance_Required'')))
          \<and> count_pwr (row_state e tgood (i - 6)) = 0
          \<and> 7 \<le> zero_run_ending (float_col df ''Power'') i
          \<and> count_pwr (row_state e tgood (Suc i)) = 0
          \<and> pwrc (row_state e tgood (Suc i)) = 0)"
proof (intro conjI impI)
  note rows = row_lookup[OF assms]
  note len = column_lengths[OF assms(1)]
  show "int_col df ''Maintenance_Required'' ! i = 1
          \<longleftrightarrow> counter_after_branch e tgood i = NB_RECORDS_IMPACTED"
    by (simp add: rows emitted_maint)
  show "int_col df ''Maintenance_Required'' ! i = 0"
    if "int_col df ''Maintenance_Required'' ! i \<noteq> 1"
    using that by (simp add: rows emitted_maint split: if_splits)
  assume "int_col df ''Maintenance_Required'' ! i = 1"
  then have flag: "row_maint (emitted e tgood i) = 1" by (simp add: rows)
  note fr = flagged_row[OF flag]
  have ep: "Suc j \<le> i \<and> row_power (emitted e tgood (i - Suc j)) = 0
         \<and> row_maint (emitted e tgood (i - Suc j)) = 0
         \<and> count_pwr (row_state e tgood (i - Suc j)) = 5 - int j" if "j < 6" for j
    using episode_rows[of j e tgood i] that fr(1) by simp
  from ep[of 5] show six: "6 \<le> i" by simp
  from ep[of 5] show "count_pwr (row_state e tgood (i - 6)) = 0" by simp
  have pw: "float_col df ''Power'' ! (i - j) = 0" if "j \<le> 6" for j
  proof (cases j)
    case 0
    then show ?thesis by (simp add: rows fr)
  next
    case (Suc j')
    with that have "j' < 6" by simp
    from ep[OF this] Suc assms(2) show ?thesis
      using row_lookup(3)[OF assms(1), of "i - j"] by simp
  qed
  have mt: "int_col df ''Maintenance_Required'' ! (i - Suc j) = 0" if "j < 6" for j
    using ep[OF that] assms(2) row_lookup(2)[OF assms(1), of "i - Suc j"] by simp
  have "float_col df ''Power'' ! (i - 6 + j) = 0" if "j < 7" for j
  proof -
    from that six have "i - 6 + j = i - (6 - j)" by simp
    with pw[of "6 - j"] show ?thesis by simp
  qed
  with six assms(2) len(3) show "list_all (\<lambda>x. x = 0) (take 7 (drop (i - 6) (float_col df ''Power'')))"
    using list_all_window[of "i - 6" 7 "float_col df ''Power''" "\<lambda>x. x = 0"] by simp
  have "int_col df ''Maintenance_Required'' ! (i - 6 + j) = 0" if "j < 6" for j
  proof -
    from that six have "i - 6 + j = i - Suc (5 - j)" by simp
    with mt[of "5 - j"] show ?thesis by simp
  qed
  with six assms(2) len(2)
  show "list_all (\<lambda>m. m = 0) (take 6 (drop (i - 6) (int_col df ''Maintenance_Required'')))"
    using list_all_window[of "i - 6" 6 "int_col df ''Maintenance_Required''" "\<lambda>x. x = 0"] by simp
  from zero_run_at_least[of 6 i "float_col df ''Power''"] six assms(2) len(3) pw
  show "7 \<le> zero_run_ending (float_col df ''Power'') i" by simp
  from flag show "count_pwr (row_state e tgood (Suc i)) = 0"
    by (simp add: next_counter emitted_maint split: if_splits)
  from fr(3) show "pwrc (row_state e tgood (Suc i)) = 0" by (simp add: next_pwrc)
qed

text \<open>Row 6 of \<open>one_episode_frame\<close> is flagged; its episode is rows 0 to 6.\<close>

theorem flagged_row_ends_episode_witness:
  "generatePowerOff one_episode_env ''101'' 8 4.4 None None = Inr one_episode_frame
   \<and> 6 < nat 8
   \<and> int_col one_episode_frame ''Maintenance_Required'' ! 6 = 1
   \<and> counter_after_branch one_episode_env 4.4 6 = NB_RECORDS_IMPACTED
   \<and> list_all (\<lambda>x. x = 0) (take 7 (drop (6 - 6) (float_col one_episode_frame ''Power'')))
   \<and> list_all (\<lambda>m. m = 0) (take 6 (drop (6 - 6) (int_col one_episode_frame ''Maintenance_Required'')))
   \<and> count_pwr (row_state one_episode_env 4.4 (6 - 6)) = 0
   \<and> 7 \<le> zero_run_ending (float_col one_episode_frame ''Power'') 6
   \<and> count_pwr (row_state one_episode_env 4.4 (Suc 6)) = 0
   \<and> pwrc (row_state one_episode_env 4.4 (Suc 6)) = 0"
proof -
  have row: "6 < nat 8" by simp
  have flag: "int_col one_episode_frame ''Maintenance_Required'' ! 6 = 1" by code_simp
  from flagged_row_ends_episode[OF one_episode_run row] flag one_episode_run row
  show ?thesis by blast
qed

section \<open>What a flagged row shows\<close>

text \<open>
  C10. In every frame of the power-loss scenario, every row with
  Maintenance_Required == 1 has PowerConsumption == 0 and Power == 0: the counter can
  only reach 7 on a row whose power was set to 0, and the accumulator is reset before the
  row is written.
\<close>

theorem flagged_row_has_zero_power_and_consumption:
  assumes "generatePowerOff e cid nb_records tgood content_type start_time = Inr df"
    and "i < nat nb_records"
    and "int_col df ''Maintenance_Required'' ! i = 1"
  shows "float_col df ''PowerConsumption'' ! i = 0 \<and> float_col df ''Power'' ! i = 0"
proof -
  from assms(3) have "row_maint (emitted e tgood i) = 1"
    by (simp add: row_lookup(2)[OF assms(1,2)])
  from flagged_row(2,3)[OF this] show ?thesis
    by (simp add: row_lookup[OF assms(1,2)])
qed

theorem flagged_row_has_zero_power_and_consumption_witness:
  "generatePowerOff one_episode_env ''101'' 8 4.4 None None = Inr one_episode_frame
   \<and> 6 < nat 8
   \<and> int_col one_episode_frame ''Maintenance_Required'' ! 6 = 1
   \<and> float_col one_episode_frame ''PowerConsumption'' ! 6 = 0
   \<and> float_col one_episode_frame ''Power'' ! 6 = 0"
proof -
  have row: "6 < nat 8" by simp
  have flag: "int_col one_episode_frame ''Maintenance_Required'' ! 6 = 1" by code_simp
  from flagged_row_has_zero_power_and_consumption[OF one_episode_run row flag]
    one_episode_run row flag
  show ?thesis by blast
qed

section \<open>The consumption accumulator\<close>

text \<open>
  C6. On every row \<open>i\<close> of the power-loss scenario the accumulator \<open>pwrc\<close> is updated
  before the power-off branching: with \<open>prev\<close> the PowerConsumption of the previous row
  (0 before the first row), it is a fresh sample from N(7.2, 10) if \<open>prev\<close> is 0, and
  \<open>pwr + prev\<close> otherwise, where \<open>pwr\<close> is the power draw as sampled, negative or not.
  The row's PowerConsumption is that value, or 0 on a flagged row. The recurrence grows
  without bound: when every sample is its mean, the last PowerConsumption of a long
  enough frame exceeds any given \<open>B\<close>.
\<close>

theorem consumption_recurrence:
  assumes "generatePowerOff e cid nb_records tgood content_type start_time = Inr df"
    and "i < nat nb_records"
  shows "updated_pwrc e tgood i =
           (if (if i = 0 then 0 else float_col df ''PowerConsumption'' ! (i - 1)) = 0
            then gauss POWER_LEVEL 10.0 (py_gauss e (drawn (row_state e tgood i) + 2))
            else sampled_pwr e tgood i
                 + (if i = 0 then 0 else float_col df ''PowerConsumption'' ! (i - 1)))
       \<and> float_col df ''PowerConsumption'' ! i =
           (if int_col df ''Maintenance_Required'' ! i = 1 then 0 else updated_pwrc e tgood i)
       \<and> (\<exists>n' df'. generatePowerOff steady_env cid n' tgood content_type start_time = Inr df'
              \<and> B < last (float_col df' ''PowerConsumption''))"
proof (intro conjI)
  note prev = previous_pwrc[OF assms, symmetric]
  show "updated_pwrc e tgood i =
           (if (if i = 0 then 0 else float_col df ''PowerConsumption'' ! (i - 1)) = 0
            then gauss POWER_LEVEL 10.0 (py_gauss e (drawn (row_state e tgood i) + 2))
            else sampled_pwr e tgood i
                 + (if i = 0 then 0 else float_col df ''PowerConsumption'' ! (i - 1)))"
    unfolding prev by (simp add: updated_pwrc_def update_pwrc_def)
  show "float_col df ''PowerConsumption'' ! i =
           (if int_col df ''Maintenance_Required'' ! i = 1 then 0 else updated_pwrc e tgood i)"
    by (simp add: row_lookup[OF assms] emitted_pwrc emitted_maint)
  show "\<exists>n' df'. generatePowerOff steady_env cid n' tgood content_type start_time = Inr df'
              \<and> B < last (float_col df' ''PowerConsumption'')"
    by (rule steady_growth)
qed

text \<open>
  The second row of \<open>outage_frame\<close>: the sampled draw is -4.8 and the row's Power is 0,
  yet the accumulator moves from -12.8 to -12.8 - 4.8 = -17.6.
\<close>

theorem consumption_recurrence_witness:
  "generatePowerOff outage_env ''101'' 8 4.4 (Some 1) (Some 0) = Inr outage_frame
   \<and> 1 < nat 8
   \<and> sampled_pwr outage_env 4.4 1 = - 4.8
   \<and> float_col outage_frame ''Power'' ! 1 = 0
   \<and> float_col outage_frame ''PowerConsumption'' ! (1 - 1) = - 12.8
   \<and> int_col outage_frame ''Maintenance_Required'' ! 1 = 0
   \<and> updated_pwrc outage_env 4.4 1 = - 17.6
   \<and> float_col outage_frame ''PowerConsumption'' ! 1 = - 17.6
   \<and> (\<exists>n' df'. generatePowerOff steady_env ''101'' n' 4.4 (Some 1) (Some 0) = Inr df'
          \<and> 100 < last (float_col df' ''PowerConsumption''))"
proof -
  have row: "1 < nat 8" by simp
  have pwr: "sampled_pwr outage_env 4.4 1 = - 4.8" by code_simp
  have p: "float_col outage_frame ''Power'' ! 1 = 0" by code_simp
  have prev: "float_col outage_frame ''PowerConsumption'' ! (1 - 1) = - 12.8" by code_simp
  have flag: "int_col outage_frame ''Maintenance_Required'' ! 1 = 0" by code_simp
  from consumption_recurrence[OF outage_run row, of 100]
  have "updated_pwrc outage_env 4.4 1 = - 17.6
      \<and> float_col outage_frame ''PowerConsumption'' ! 1 = - 17.6
      \<and> (\<exists>n' df'. generatePowerOff steady_env ''101'' n' 4.4 (Some 1) (Some 0) = Inr df'
            \<and> 100 < last (float_col df' ''PowerConsumption''))"
    unfolding pwr prev flag by simp
  with outage_run row pwr p prev flag show ?thesis by blast
qed

section \<open>The CO2 scenario\<close>

text \<open>
  C2. For every row \<open>i\<close> of the frame the CO2 scenario returns, Maintenance_Required is 1
  if and only if CO2 is greater than 4 or less than 0, and is 0 otherwise.
\<close>

theorem co2_label_iff_out_of_range:
  assumes "generateCo2 e cid nb_records tgood content_type start_time = Inr df"
    and "i < nat nb_records"
  shows "length (float_col df ''CO2'') = nat nb_records
       \<and> length (int_col df ''Maintenance_Required'') = nat nb_records
       \<and> (int_col df ''Maintenance_Required'' ! i = 1
            \<longleftrightarrow> float_col df ''CO2'' ! i > 4 \<or> float_col df ''CO2'' ! i < 0)
       \<and> (int_col df ''Maintenance_Required'' ! i \<noteq> 1
            \<longrightarrow> int_col df ''Maintenance_Required'' ! i = 0)"
proof -
  note cols = generateCo2_columns[OF assms(1)]
  have len: "length (float_col df ''CO2'') = nat nb_records"
    by (simp add: cols(2) np_random_normal_length)
  with assms(2) show ?thesis
    by (simp add: cols(4) CO2_LEVEL_def)
qed

text \<open>The third row of \<open>co2_frame\<close>: the reading is -2, the row is flagged.\<close>

theorem co2_label_iff_out_of_range_witness:
  "generateCo2 co2_env ''101'' 3 4.4 None None = Inr co2_frame
   \<and> 2 < nat 3
   \<and> float_col co2_frame ''CO2'' ! 2 = - 2
   \<and> int_col co2_frame ''Maintenance_Required'' ! 2 = 1"
proof -
  have row: "2 < nat 3" by simp
  have co2: "float_col co2_frame ''CO2'' ! 2 = - 2" by code_simp
  from co2_label_iff_out_of_range[OF co2_run row]
  have "int_col co2_frame ''Maintenance_Required'' ! 2 = 1"
    unfolding co2 by simp
  with co2_run row co2 show ?thesis by blast
qed

text \<open>
  C7. For every row \<open>i\<close> of the frame the CO2 scenario returns, PowerConsumption is the sum
  of the Power column from row 0 to row \<open>i\<close>.
\<close>

theorem co2_consumption_is_running_sum:
  assumes "generateCo2 e cid nb_records tgood content_type start_time = Inr df"
    and "i < nat nb_records"
  shows "length (float_col df ''Power'') = nat nb_records
       \<and> length (float_col df ''PowerConsumption'') = nat nb_records
       \<and> float_col df ''PowerConsumption'' ! i = sum_list (take (Suc i) (float_col df ''Power''))"
proof -
  note cols = generateCo2_columns[OF assms(1)]
  have len: "length (float_col df ''Power'') = nat nb_records"
    by (simp add: cols(3) np_random_normal_length)
  with assms(2) show ?thesis
    by (simp add: cols(5) cumsum_from_length cumsum_from_nth)
qed

text \<open>The third row of \<open>co2_frame\<close>: 13.2 + 1.2 - 4.8 = 9.6.\<close>

theorem co2_consumption_is_running_sum_witness:
  "generateCo2 co2_env ''101'' 3 4.4 None None = Inr co2_frame
   \<and> 2 < nat 3
   \<and> float_col co2_frame ''Power'' = [13.2, 1.2, - 4.8]
   \<and> float_col co2_frame ''PowerConsumption'' ! 2 = 9.6"
proof -
  have row: "2 < nat 3" by simp
  have pw: "float_col co2_frame ''Power'' = [13.2, 1.2, - 4.8]" by code_simp
  from co2_consumption_is_running_sum[OF co2_run row]
  have "float_col co2_frame ''PowerConsumption'' ! 2 = 9.6"
    unfolding pw by simp
  with co2_run row pw show ?thesis by blast
qed

section \<open>Row counts that are not positive\<close>

text \<open>
  C3, as stated: a row count of 0 is rejected with an error. It is not: the tabular
  generators return the twelve columns with no row.
\<close>

theorem zero_rows_is_not_rejected:
  "generatePowerOff steady_env ''101'' 0 4.4 None None = Inr empty_frame
   \<and> generateCo2 steady_env ''101'' 0 4.4 None None = Inr empty_frame"
  by code_simp

text \<open>
  C3, amended. The tabular generators of both scenarios do not check the row count:
  with a negative count they fail with the ValueError that numpy raises on the first
  stationary column, before any row exists, and return no frame; with a count of 0 they
  raise nothing and return the empty frame.
\<close>

theorem invalid_row_counts:
  "(nb_records < 0 \<longrightarrow>
       generatePowerOff e cid nb_records tgood content_type start_time = Inl ValueError
     \<and> generateCo2 e cid nb_records tgood content_type start_time = Inl ValueError)
   \<and> generatePowerOff e cid 0 tgood content_type start_time = Inr empty_frame
   \<and> generateCo2 e cid 0 tgood content_type start_time = Inr empty_frame"
  by (simp add: generatePowerOff_def generateCo2_def generateStationaryCols_def
      generateTimestamps_def simulatePowerOff_def Let_def df_get_def COLUMN_ORDER_def
      empty_frame_def np_random_normal_def np_random_randint_def)

theorem invalid_row_counts_witness:
  "(- 1 :: int) < 0
   \<and> generatePowerOff steady_env ''101'' (- 1) 4.4 None None = Inl ValueError
   \<and> generateCo2 steady_env ''101'' (- 1) 4.4 None None = Inl ValueError"
  using invalid_row_counts[of "- 1" steady_env "''101''" "4.4" None None] by simp

section \<open>The tuple variants\<close>

text \<open>
  C9. Each tuple variant calls a bare name, \<^verbatim>\<open>generatePowerOff\<close> or \<^verbatim>\<open>generateCo2\<close>,
  that the module does not bind: the call raises NameError for every input.
\<close>

theorem tuple_variants_raise_NameError:
  "generatePowerOffTuples e cid nb_records tgood content_type start_time
     = Inl (NameError ''generatePowerOff'')
   \<and> generateCo2Tuples e cid nb_records tgood content_type start_time
     = Inl (NameError ''generateCo2'')"
  by (simp add: generatePowerOffTuples_def generateCo2Tuples_def call_global_def
      module_globals_def)

text \<open>
  C8 says that the tuple variants return rows with Maintenance_Required == 0. As
  written they return nothing: for one row of either scenario the result is the
  NameError above.
\<close>

theorem tuple_variants_return_no_rows:
  "generatePowerOffTuples steady_env ''101'' 1 4.4 None None = Inl (NameError ''generatePowerOff'')
   \<and> generateCo2Tuples steady_env ''101'' 1 4.4 None None = Inl (NameError ''generateCo2'')"
  by code_simp

end
